theory Spec2Isabelle
  imports Main "HOL-Library.Char_ord" "HOL-Library.List_Lexorder"
begin

section \<open>Python values and exceptions\<close>

text \<open>
  Python \<open>str\<close> values are modelled as HOL strings (one \<open>char\<close> per character),
  Python \<open>int\<close> as \<open>int\<close>, \<open>None\<close> and absent dictionary keys as \<open>None\<close> of an
  option type. An exception is a value of type \<open>error\<close>; a function that can raise
  returns \<open>error + 'a\<close> with \<open>Inl\<close> for the raised exception.
\<close>

datatype error =
    KeyError string
  | ValueError string
  | AttributeError string
  | IndexError string
  | AssertionError string
  | RequestError string

text \<open>Truthiness of an optional string: \<open>None\<close> and the empty string are falsy.\<close>

definition truthy :: "string option \<Rightarrow> bool" where
  "truthy v = (case v of None \<Rightarrow> False | Some s \<Rightarrow> s \<noteq> [])"

text \<open>\<open>d.get(key, default)\<close> on a key that may be absent.\<close>

definition get_default :: "'a option \<Rightarrow> 'a \<Rightarrow> 'a" where
  "get_default v d = (case v of None \<Rightarrow> d | Some x \<Rightarrow> x)"

section \<open>collector/db.py: the record store\<close>

text \<open>
  A row of table \<open>job_entries\<close>. Field names carry the prefix \<open>je_\<close> (the column
  \<open>id\<close> would clash with HOL's identity function). Column \<open>created_at\<close> is a clock
  reading that no operation below reads; it is left out.
\<close>

record JobEntry =
  je_id :: string
  je_title :: string
  je_link :: string
  je_description :: string
  je_content :: string
  je_published :: string
  je_source :: string
  je_category :: string
  je_analyzed :: bool
  je_analysis_result :: "string option"
  je_relevance_score :: int

text \<open>
  The table behind \<open>db_manager.session\<close>: its rows in insertion order. The primary
  key on \<open>id\<close> is the invariant \<open>primary_key\<close>.
\<close>

type_synonym session = "JobEntry list"

definition primary_key :: "session \<Rightarrow> bool" where
  "primary_key s = distinct (map je_id s)"

text \<open>
  The dictionary \<open>entry_data\<close> handed to \<open>add_job_entry\<close>: each key may be absent
  (\<open>None\<close>), and reading an absent key with \<open>entry_data[key]\<close> raises \<open>KeyError\<close>.
\<close>

record entry_data =
  ed_title :: "string option"
  ed_link :: "string option"
  ed_description :: "string option"
  ed_content :: "string option"
  ed_published :: "string option"
  ed_source :: "string option"
  ed_category :: "string option"
  ed_relevance_score :: "int option"

definition getitem :: "'a option \<Rightarrow> string \<Rightarrow> error + 'a" where
  "getitem v key = (case v of None \<Rightarrow> Inl (KeyError key) | Some x \<Rightarrow> Inr x)"

text \<open>
  \<open>generate_job_id\<close>: the MD5 hex digest of \<open>f"{title}|{link}"\<close>. The library part,
  \<open>hashlib.md5(content.encode('utf-8')).hexdigest()\<close> as a function of the string
  \<open>content\<close>, is the parameter \<open>md5_hexdigest\<close>.
\<close>

definition generate_job_id :: "(string \<Rightarrow> string) \<Rightarrow> string \<Rightarrow> string \<Rightarrow> string" where
  "generate_job_id md5_hexdigest title link = md5_hexdigest (title @ ''|'' @ link)"

text \<open>\<open>session.query(JobEntry).filter_by(id=job_id).first()\<close>\<close>

definition query_first_by_id :: "session \<Rightarrow> string \<Rightarrow> JobEntry option" where
  "query_first_by_id s job_id = find (\<lambda>r. je_id r = job_id) s"

definition add_job_entry ::
    "(string \<Rightarrow> string) \<Rightarrow> session \<Rightarrow> entry_data \<Rightarrow> error + (bool \<times> session)" where
  "add_job_entry md5_hexdigest s entry =
    (case getitem (ed_title entry) ''title'' of Inl e \<Rightarrow> Inl e | Inr title \<Rightarrow>
    (case getitem (ed_link entry) ''link'' of Inl e \<Rightarrow> Inl e | Inr link \<Rightarrow>
    (let job_id = generate_job_id md5_hexdigest title link in
    (case query_first_by_id s job_id of
       Some existing \<Rightarrow> Inr (False, s)
     | None \<Rightarrow>
    (case getitem (ed_description entry) ''description'' of Inl e \<Rightarrow> Inl e | Inr description \<Rightarrow>
    (case getitem (ed_content entry) ''content'' of Inl e \<Rightarrow> Inl e | Inr content \<Rightarrow>
    (case getitem (ed_published entry) ''published'' of Inl e \<Rightarrow> Inl e | Inr published \<Rightarrow>
    (case getitem (ed_source entry) ''source'' of Inl e \<Rightarrow> Inl e | Inr source \<Rightarrow>
    (case getitem (ed_category entry) ''category'' of Inl e \<Rightarrow> Inl e | Inr category \<Rightarrow>
       Inr (True, s @ [\<lparr> je_id = job_id, je_title = title, je_link = link,
              je_description = description, je_content = content,
              je_published = published, je_source = source, je_category = category,
              je_analyzed = False, je_analysis_result = None,
              je_relevance_score = get_default (ed_relevance_score entry) 0 \<rparr>]))))))))))"

text \<open>An entry that carries the seven keys \<open>add_job_entry\<close> reads with \<open>[]\<close>.\<close>

definition has_required_keys :: "entry_data \<Rightarrow> bool" where
  "has_required_keys entry =
    (ed_title entry \<noteq> None \<and> ed_link entry \<noteq> None \<and> ed_description entry \<noteq> None \<and>
     ed_content entry \<noteq> None \<and> ed_published entry \<noteq> None \<and> ed_source entry \<noteq> None \<and>
     ed_category entry \<noteq> None)"

text \<open>The identity \<open>add_job_entry\<close> computes for an entry.\<close>

definition entry_job_id :: "(string \<Rightarrow> string) \<Rightarrow> entry_data \<Rightarrow> string" where
  "entry_job_id md5_hexdigest entry =
    generate_job_id md5_hexdigest (get_default (ed_title entry) []) (get_default (ed_link entry) [])"

definition get_unanalyzed_entries :: "session \<Rightarrow> JobEntry list" where
  "get_unanalyzed_entries s = filter (\<lambda>j. je_analyzed j = False) s"

definition update_analysis_result :: "session \<Rightarrow> string \<Rightarrow> string \<Rightarrow> session" where
  "update_analysis_result s job_id analysis_result =
    (case query_first_by_id s job_id of
       None \<Rightarrow> s
     | Some entry \<Rightarrow>
         map (\<lambda>r. if je_id r = job_id
                   then r\<lparr> je_analysis_result := Some analysis_result, je_analyzed := True \<rparr>
                   else r) s)"

text \<open>\<open>query.offset(offset).limit(limit).all()\<close>\<close>

definition get_all_entries :: "session \<Rightarrow> nat \<Rightarrow> nat \<Rightarrow> JobEntry list" where
  "get_all_entries s limit offset = take limit (drop offset s)"

section \<open>ui/backend_api.py: statistics\<close>

record stats =
  total_jobs :: int
  analyzed_jobs :: int
  pending_analysis :: int

definition get_stats :: "session \<Rightarrow> stats" where
  "get_stats s =
    (let total = int (length (get_all_entries s 10000 0));
         unanalyzed = int (length (get_unanalyzed_entries s))
     in \<lparr> total_jobs = total, analyzed_jobs = total - unanalyzed,
          pending_analysis = unanalyzed \<rparr>)"

section \<open>analysis/vector_store.py: the vector index\<close>

text \<open>
  The entries of \<open>self.documents\<close>: the dictionary \<open>doc\<close> built per job.
\<close>

record doc =
  doc_id :: string
  doc_title :: string
  doc_link :: string
  doc_source :: string
  doc_published :: string
  doc_text :: string
  doc_analysis :: "string option"

text \<open>
  The embedding model and FAISS are libraries. A row of an embedding array is a value
  of the abstract type \<open>'v\<close> (its float32 numbers are not modelled); the library calls
  are the fields of \<open>embedder\<close>: \<open>encode\<close> is \<open>SentenceTransformer.encode\<close> on a list
  of texts (\<open>Inl\<close> when it raises), \<open>normalize_L2\<close> is \<open>faiss.normalize_L2\<close> on one
  row, \<open>dim\<close> is the number of columns of a row.
\<close>

record 'v embedder =
  encode :: "string list \<Rightarrow> error + 'v list"
  normalize_L2 :: "'v \<Rightarrow> 'v"
  dim :: "'v \<Rightarrow> nat"

text \<open>
  The in-memory state of \<open>VectorStore\<close>: the \<open>IndexFlatIP\<close> (its dimension \<open>d\<close> and
  its rows in insertion order, \<open>ntotal\<close> of them) and \<open>self.documents\<close>.
  \<open>_save_index\<close> writes both to disk and swallows every exception; it changes neither
  field, and the files are not part of this state.
\<close>

record 'v VectorStore =
  index_d :: nat
  index_rows :: "'v list"
  documents :: "doc list"

definition ntotal :: "'v VectorStore \<Rightarrow> nat" where
  "ntotal vs = length (index_rows vs)"

text \<open>\<open>_create_new_index\<close>: probe the model with one text, read \<open>shape[1]\<close>.\<close>

definition create_new_index :: "'v embedder \<Rightarrow> error + 'v VectorStore" where
  "create_new_index em =
    (case encode em [''sample text''] of
       Inl e \<Rightarrow> Inl e
     | Inr sample_embedding \<Rightarrow>
        (case sample_embedding of
           [] \<Rightarrow> Inl (IndexError ''shape'')
         | v # _ \<Rightarrow> Inr \<lparr> index_d = dim em v, index_rows = [], documents = [] \<rparr>))"

text \<open>The loop body of \<open>add_job_entries\<close>: the searchable text and the document of a job.\<close>

definition searchable_text :: "JobEntry \<Rightarrow> string" where
  "searchable_text job =
    (let analysis_text = (case je_analysis_result job of
                            None \<Rightarrow> []
                          | Some a \<Rightarrow> (if a \<noteq> [] then a else []))
     in je_title job @ '' '' @ je_description job @ '' '' @ analysis_text)"

definition make_doc :: "JobEntry \<Rightarrow> doc" where
  "make_doc job =
    \<lparr> doc_id = je_id job, doc_title = je_title job, doc_link = je_link job,
      doc_source = je_source job, doc_published = je_published job,
      doc_text = searchable_text job, doc_analysis = je_analysis_result job \<rparr>"

text \<open>
  \<open>index.add(x)\<close>: FAISS asserts that the array has the index's dimension before it
  appends the rows.
\<close>

definition index_add :: "'v embedder \<Rightarrow> 'v VectorStore \<Rightarrow> 'v list \<Rightarrow> error + 'v VectorStore" where
  "index_add em vs x =
    (if list_all (\<lambda>v. dim em v = index_d vs) x
     then Inr (vs\<lparr> index_rows := index_rows vs @ x \<rparr>)
     else Inl (AssertionError ''d''))"

text \<open>
  \<open>add_job_entries\<close> returns the exception it raised, if any, and the state of the
  object afterwards.
\<close>

definition add_job_entries ::
    "'v embedder \<Rightarrow> 'v VectorStore \<Rightarrow> JobEntry list \<Rightarrow> error option \<times> 'v VectorStore" where
  "add_job_entries em vs job_entries =
    (if job_entries = [] then (None, vs)
     else
       let new_docs = map make_doc job_entries;
           texts_to_embed = map searchable_text job_entries
       in case encode em texts_to_embed of
            Inl e \<Rightarrow> (Some e, vs)
          | Inr embeddings \<Rightarrow>
             (case index_add em vs (map (normalize_L2 em) embeddings) of
                Inl e \<Rightarrow> (Some e, vs)
              | Inr vs' \<Rightarrow> (None, vs'\<lparr> documents := documents vs' @ new_docs \<rparr>)))"

text \<open>
  A sequence of \<open>add_job_entries\<close> calls, each made as \<open>analyze_pending_jobs\<close> makes
  it: inside \<open>try\<close>, an exception is printed and the next call goes on.
\<close>

fun add_calls :: "'v embedder \<Rightarrow> 'v VectorStore \<Rightarrow> JobEntry list list \<Rightarrow> 'v VectorStore" where
  "add_calls em vs [] = vs"
| "add_calls em vs (b # bs) = add_calls em (snd (add_job_entries em vs b)) bs"

text \<open>
  The (row, document) pairs one call contributes: none when the call returns early or
  raises, else the k-th normalised embedding of the batch beside the k-th document.
\<close>

definition call_pairs :: "'v embedder \<Rightarrow> nat \<Rightarrow> JobEntry list \<Rightarrow> ('v \<times> doc) list" where
  "call_pairs em d job_entries =
    (if job_entries = [] then []
     else case encode em (map searchable_text job_entries) of
            Inl e \<Rightarrow> []
          | Inr embeddings \<Rightarrow>
              (if list_all (\<lambda>v. dim em v = d) (map (normalize_L2 em) embeddings)
               then zip (map (normalize_L2 em) embeddings) (map make_doc job_entries)
               else []))"

text \<open>The contract of \<open>encode\<close>: one row per text.\<close>

definition encode_one_row_per_text :: "'v embedder \<Rightarrow> bool" where
  "encode_one_row_per_text em =
    (\<forall>texts rows. encode em texts = Inr rows \<longrightarrow> length rows = length texts)"

text \<open>
  \<open>rebuild_index\<close>. The attributes of a \<open>DatabaseManager\<close> instance are those its class
  body and \<open>__init__\<close> define; reading any other raises \<open>AttributeError\<close>.
\<close>

definition DatabaseManager_attributes :: "string list" where
  "DatabaseManager_attributes =
    [''engine'', ''session'', ''generate_job_id'', ''add_job_entry'',
     ''get_unanalyzed_entries'', ''update_analysis_result'', ''get_all_entries'',
     ''search_entries'']"

definition db_manager_getattr :: "string \<Rightarrow> error + string" where
  "db_manager_getattr name =
    (if name \<in> set DatabaseManager_attributes then Inr name
     else Inl (AttributeError name))"

text \<open>\<open>range(start, stop, step)\<close> for a positive step.\<close>

definition py_range :: "nat \<Rightarrow> nat \<Rightarrow> nat \<Rightarrow> nat list" where
  "py_range start stop step =
    map (\<lambda>k. start + k * step) [0 ..< (stop - start + step - 1) div step]"

text \<open>The slice \<open>xs[i:j]\<close> for \<open>0 \<le> i \<le> j\<close>.\<close>

definition slice :: "'a list \<Rightarrow> nat \<Rightarrow> nat \<Rightarrow> 'a list" where
  "slice xs i j = take (j - i) (drop i xs)"

text \<open>The batch loop: an exception of \<open>add_job_entries\<close> ends it.\<close>

fun add_batches ::
    "'v embedder \<Rightarrow> 'v VectorStore \<Rightarrow> JobEntry list list \<Rightarrow> error option \<times> 'v VectorStore" where
  "add_batches em vs [] = (None, vs)"
| "add_batches em vs (batch # rest) =
    (case add_job_entries em vs batch of
       (Some e, vs') \<Rightarrow> (Some e, vs')
     | (None, vs') \<Rightarrow> add_batches em vs' rest)"

definition rebuild_index ::
    "'v embedder \<Rightarrow> 'v VectorStore \<Rightarrow> session \<Rightarrow> error option \<times> 'v VectorStore" where
  "rebuild_index em vs s =
    (case create_new_index em of
       Inl e \<Rightarrow> (Some e, vs)
     | Inr vs0 \<Rightarrow>
        (case db_manager_getattr ''JobEntry'' of
           Inl e \<Rightarrow> (Some e, vs0)
         | Inr JobEntry_class \<Rightarrow>
            (let all_jobs = filter (\<lambda>j. je_analyzed j = True) s;
                 batch_size = 100
             in add_batches em vs0
                  (map (\<lambda>i. slice all_jobs i (i + batch_size))
                       (py_range 0 (length all_jobs) batch_size)))))"

section \<open>analysis/llm_client.py: the analysis service\<close>

text \<open>
  The three provider calls. What the HTTP request or SDK call inside each \<open>try\<close> does
  is a parameter: \<open>Inr\<close> the response text, \<open>Inl\<close> the message of the exception it
  raised. Each wrapper turns an exception into an error text and never raises.
\<close>

record llm_backends =
  ollama_request :: "string \<Rightarrow> string + string"
  openai_request :: "string \<Rightarrow> string + string"
  anthropic_request :: "string \<Rightarrow> string + string"

definition call_ollama :: "llm_backends \<Rightarrow> string \<Rightarrow> string" where
  "call_ollama be prompt =
    (case ollama_request be prompt of
       Inr response \<Rightarrow> response
     | Inl e \<Rightarrow> ''Error calling Ollama: '' @ e)"

definition call_openai :: "llm_backends \<Rightarrow> string \<Rightarrow> string" where
  "call_openai be prompt =
    (case openai_request be prompt of
       Inr response \<Rightarrow> response
     | Inl e \<Rightarrow> ''Error calling OpenAI: '' @ e)"

definition call_anthropic :: "llm_backends \<Rightarrow> string \<Rightarrow> string" where
  "call_anthropic be prompt =
    (case anthropic_request be prompt of
       Inr response \<Rightarrow> response
     | Inl e \<Rightarrow> ''Error calling Anthropic: '' @ e)"

text \<open>\<open>_call_llm\<close>: dispatch on \<open>self.provider\<close>.\<close>

definition call_llm :: "string \<Rightarrow> llm_backends \<Rightarrow> string \<Rightarrow> error + string" where
  "call_llm provider be prompt =
    (if provider = ''ollama'' then Inr (call_ollama be prompt)
     else if provider = ''openai'' then Inr (call_openai be prompt)
     else if provider = ''anthropic'' then Inr (call_anthropic be prompt)
     else Inl (ValueError (''Unsupported LLM provider: '' @ provider)))"

section \<open>collector/rss_client.py\<close>

subsection \<open>Configuration\<close>

text \<open>
  The keys of \<open>config_loader.config\<close> that the client reads; \<open>None\<close> is an absent key.
\<close>

record recruitment_filters =
  required_degree :: "string option"
  citizenship_requirement :: "string option"

record config =
  cfg_keywords :: "string list option"
  cfg_recruitment_filters :: "recruitment_filters option"
  cfg_last_miniflux_fetch :: "string option"

subsection \<open>The relevance gate\<close>

text \<open>\<open>', '.join(xs)\<close>\<close>

fun join_comma :: "string list \<Rightarrow> string" where
  "join_comma [] = []"
| "join_comma [x] = x"
| "join_comma (x # y # ys) = x @ '', '' @ join_comma (y # ys)"

definition nl :: string where
  "nl = [CHR 0x0A]"

text \<open>The prompt of \<open>_quick_relevance_check\<close>; \<open>config['keywords']\<close> raises when absent.\<close>

definition relevance_prompt :: "config \<Rightarrow> string \<Rightarrow> string \<Rightarrow> error + string" where
  "relevance_prompt cfg title description =
    (let filters = get_default (cfg_recruitment_filters cfg)
                     \<lparr> required_degree = None, citizenship_requirement = None \<rparr>;
         degree_req = get_default (required_degree filters) ''PhD'';
         citizenship_req = get_default (citizenship_requirement filters)
                             ''open to international students''
     in case getitem (cfg_keywords cfg) ''keywords'' of
          Inl e \<Rightarrow> Inl e
        | Inr keywords \<Rightarrow>
            Inr (''Rate this job for '' @ degree_req @ '' international student (0-10):'' @ nl @
                 ''    Keywords: '' @ join_comma keywords @ nl @
                 ''    Requirements: '' @ degree_req @ '' degree, '' @ citizenship_req @ nl @
                 nl @
                 ''    Title: '' @ title @ nl @
                 ''    Description: '' @ description @ nl @
                 nl @
                 ''    Check for: '' @ degree_req @
                 '' requirement, visa sponsorship, citizenship restrictions'' @ nl @
                 ''    Score only (0-10):''))"

text \<open>
  The cache lookup at the head of \<open>_quick_relevance_check\<close>: made only for a truthy
  \<open>link\<close>, answered only by a stored record with \<open>relevance_score > 0\<close>.
\<close>

definition cached_verdict ::
    "(string \<Rightarrow> string) \<Rightarrow> session \<Rightarrow> string \<Rightarrow> string option \<Rightarrow> (bool \<times> int) option" where
  "cached_verdict md5_hexdigest s title link =
    (case link of
       None \<Rightarrow> None
     | Some l \<Rightarrow>
        (if l = [] then None
         else (case query_first_by_id s (generate_job_id md5_hexdigest title l) of
                 None \<Rightarrow> None
               | Some cached \<Rightarrow>
                   (if je_relevance_score cached > 0
                    then Some (je_relevance_score cached \<ge> 6, je_relevance_score cached)
                    else None))))"

text \<open>
  \<open>_quick_relevance_check\<close>. \<open>py_int\<close> is Python's \<open>int(score.strip())\<close>: \<open>None\<close>
  when it raises \<open>ValueError\<close>. The bare \<open>except\<close> covers the call and the parse,
  not the construction of the prompt.
\<close>

definition quick_relevance_check ::
    "(string \<Rightarrow> string) \<Rightarrow> session \<Rightarrow> config \<Rightarrow> string \<Rightarrow> llm_backends \<Rightarrow>
     (string \<Rightarrow> int option) \<Rightarrow> string \<Rightarrow> string \<Rightarrow> string option \<Rightarrow> error + (bool \<times> int)" where
  "quick_relevance_check md5_hexdigest s cfg provider be py_int title description link =
    (case cached_verdict md5_hexdigest s title link of
       Some verdict \<Rightarrow> Inr verdict
     | None \<Rightarrow>
        (case relevance_prompt cfg title description of
           Inl e \<Rightarrow> Inl e
         | Inr prompt \<Rightarrow>
            (case call_llm provider be prompt of
               Inl e \<Rightarrow> Inr (True, 6)
             | Inr score \<Rightarrow>
                (case py_int score of
                   None \<Rightarrow> Inr (True, 6)
                 | Some n \<Rightarrow> Inr (n \<ge> 6, n)))))"

definition is_job_already_processed :: "(string \<Rightarrow> string) \<Rightarrow> session \<Rightarrow> string \<Rightarrow> string \<Rightarrow> bool" where
  "is_job_already_processed md5_hexdigest s title link =
    (query_first_by_id s (generate_job_id md5_hexdigest title link) \<noteq> None)"

subsection \<open>The content fetcher\<close>

text \<open>
  The network and the HTML parser are outside the program. For a URL, \<open>jina_get\<close> is
  the request to the reader service (status code and text, or the exception);
  \<open>enhanced_get\<close> is the request and parse of \<open>_fetch_with_enhanced_bs4\<close> after the six
  kinds of element are removed: what \<open>select_one(selector).get_text(...)\<close> gives per
  selector (\<open>None\<close> when nothing matches) and what \<open>soup.get_text(...)\<close> gives;
  \<open>basic_get\<close> is the request and parse of \<open>_fetch_basic_content\<close> after script and
  style are removed: the page's \<open>get_text(...)\<close>.
\<close>

record soup =
  select_one_text :: "string \<Rightarrow> string option"
  get_text :: string

record web =
  jina_get :: "string \<Rightarrow> error + (nat \<times> string)"
  enhanced_get :: "string \<Rightarrow> error + soup"
  basic_get :: "string \<Rightarrow> error + string"

definition fetch_with_jina :: "web \<Rightarrow> string \<Rightarrow> string" where
  "fetch_with_jina w url =
    (case jina_get w (''https://r.jina.ai/'' @ url) of
       Inl e \<Rightarrow> []
     | Inr (status_code, text) \<Rightarrow> (if status_code = 200 then take 8000 text else []))"

definition content_selectors :: "string list" where
  "content_selectors =
    [''main'', ''[role=\"main\"]'', ''.job-description'', ''.job-details'',
     ''.position-summary'', ''.content'', ''#content'', ''.post-content'',
     ''article'', ''.job-posting'', ''.job-info'']"

text \<open>The selector loop: the first selector whose text is longer than 200 characters.\<close>

fun first_substantial :: "soup \<Rightarrow> string list \<Rightarrow> string option" where
  "first_substantial sp [] = None"
| "first_substantial sp (selector # rest) =
    (case select_one_text sp selector of
       None \<Rightarrow> first_substantial sp rest
     | Some text \<Rightarrow>
         (if length text > 200 then Some (take 8000 text)
          else first_substantial sp rest))"

definition fetch_with_enhanced_bs4 :: "web \<Rightarrow> string \<Rightarrow> string" where
  "fetch_with_enhanced_bs4 w url =
    (case enhanced_get w url of
       Inl e \<Rightarrow> []
     | Inr sp \<Rightarrow>
        (case first_substantial sp content_selectors of
           Some text \<Rightarrow> text
         | None \<Rightarrow> take 8000 (get_text sp)))"

definition fetch_basic_content :: "web \<Rightarrow> string \<Rightarrow> string" where
  "fetch_basic_content w url =
    (case basic_get w url of
       Inl e \<Rightarrow> []
     | Inr text \<Rightarrow> take 5000 text)"

definition fetch_full_content :: "web \<Rightarrow> string \<Rightarrow> string" where
  "fetch_full_content w url =
    (if url = [] then []
     else let content = fetch_with_jina w url in
       if content \<noteq> [] then content
       else let content = fetch_with_enhanced_bs4 w url in
         if content \<noteq> [] then content
         else fetch_basic_content w url)"

subsection \<open>The Miniflux provider\<close>

text \<open>
  An entry of the Miniflux response: the keys \<open>_fetch_miniflux\<close> reads (\<open>mf_feed_title\<close>
  is \<open>entry['feed']['title']\<close>) and the key \<open>relevance_score\<close> it writes.
\<close>

record miniflux_entry =
  mf_title :: "string option"
  mf_url :: "string option"
  mf_published_at :: "string option"
  mf_description :: "string option"
  mf_link :: "string option"
  mf_content :: "string option"
  mf_feed_title :: "string option"
  mf_relevance_score :: "int option"

text \<open>
  \<open>if not latest_timestamp or entry_time > latest_timestamp\<close>; strings compare
  lexicographically.
\<close>

definition track_latest :: "string option \<Rightarrow> string \<Rightarrow> string option" where
  "track_latest latest_timestamp entry_time =
    (case latest_timestamp of
       None \<Rightarrow> Some entry_time
     | Some latest \<Rightarrow>
        (if latest = [] \<or> entry_time > latest then Some entry_time
         else latest_timestamp))"

text \<open>
  The loop over the response's entries, with the accumulated \<open>entries\<close> and
  \<open>latest_timestamp\<close>. The store is only read. An exception of the relevance check
  leaves the loop.
\<close>

fun miniflux_loop ::
    "(string \<Rightarrow> string) \<Rightarrow> session \<Rightarrow> config \<Rightarrow> string \<Rightarrow> llm_backends \<Rightarrow>
     (string \<Rightarrow> int option) \<Rightarrow> web \<Rightarrow> miniflux_entry list \<Rightarrow>
     entry_data list \<times> string option \<Rightarrow> error + (entry_data list \<times> string option)" where
  "miniflux_loop md5_hexdigest s cfg provider be py_int w [] acc = Inr acc"
| "miniflux_loop md5_hexdigest s cfg provider be py_int w (entry # rest) (entries, latest_timestamp) =
    (let title = get_default (mf_title entry) [];
         link = get_default (mf_url entry) []
     in if is_job_already_processed md5_hexdigest s title link
        then miniflux_loop md5_hexdigest s cfg provider be py_int w rest (entries, latest_timestamp)
        else
         (let entry_time = get_default (mf_published_at entry) [];
              latest_timestamp = track_latest latest_timestamp entry_time
          in case quick_relevance_check md5_hexdigest s cfg provider be py_int
                    (get_default (mf_title entry) [])
                    (get_default (mf_description entry) [])
                    (Some (get_default (mf_link entry) [])) of
               Inl e \<Rightarrow> Inl e
             | Inr (is_relevant, relevance_score) \<Rightarrow>
                (if \<not> is_relevant
                 then miniflux_loop md5_hexdigest s cfg provider be py_int w rest (entries, latest_timestamp)
                 else if relevance_score < 6
                 then miniflux_loop md5_hexdigest s cfg provider be py_int w rest (entries, latest_timestamp)
                 else
                  (let entry = (if relevance_score \<ge> 6
                                then entry\<lparr> mf_relevance_score := Some relevance_score \<rparr>
                                else entry)
                   in miniflux_loop md5_hexdigest s cfg provider be py_int w rest
                        (entries @
                           [\<lparr> ed_title = Some (get_default (mf_title entry) []),
                              ed_link = Some (get_default (mf_url entry) []),
                              ed_description = Some (get_default (mf_content entry) []),
                              ed_content = Some (fetch_full_content w
                                                   (get_default (mf_url entry) [])),
                              ed_published = Some entry_time,
                              ed_source = Some (get_default (mf_feed_title entry) []),
                              ed_category = Some ''general'',
                              ed_relevance_score = None \<rparr>],
                         latest_timestamp)))))"

text \<open>
  \<open>_fetch_miniflux\<close>. \<open>get_entries\<close> is the request to \<open>/v1/entries\<close> as a function
  of the \<open>after\<close> parameter (absent for a falsy watermark): \<open>Inl\<close> when the request,
  \<open>raise_for_status\<close> or \<open>json()\<close> raises, else the value of \<open>data.get('entries')\<close>.
  The result is the returned list and the configuration as saved; every exception
  gives \<open>[]\<close> and leaves the saved configuration as it was.
\<close>

definition fetch_miniflux ::
    "(string \<Rightarrow> string) \<Rightarrow> session \<Rightarrow> config \<Rightarrow> string \<Rightarrow> llm_backends \<Rightarrow>
     (string \<Rightarrow> int option) \<Rightarrow> web \<Rightarrow>
     (string option \<Rightarrow> error + miniflux_entry list option) \<Rightarrow> entry_data list \<times> config" where
  "fetch_miniflux md5_hexdigest s cfg provider be py_int w get_entries =
    (let last_fetch = cfg_last_miniflux_fetch cfg
     in case get_entries (if truthy last_fetch then last_fetch else None) of
          Inl e \<Rightarrow> ([], cfg)
        | Inr data \<Rightarrow>
           (case miniflux_loop md5_hexdigest s cfg provider be py_int w (get_default data [])
                   ([], last_fetch) of
              Inl e \<Rightarrow> ([], cfg)
            | Inr (entries, latest_timestamp) \<Rightarrow>
               (if truthy latest_timestamp \<and> latest_timestamp \<noteq> last_fetch
                then (entries, cfg\<lparr> cfg_last_miniflux_fetch := latest_timestamp \<rparr>)
                else (entries, cfg))))"

text \<open>The watermark as a string: an absent watermark is the least one.\<close>

definition watermark :: "config \<Rightarrow> string" where
  "watermark cfg = get_default (cfg_last_miniflux_fetch cfg) []"

text \<open>
  The published timestamps of the entries of a response that \<open>_fetch_miniflux\<close> does not
  skip as already processed.
\<close>

definition observed_times :: "(string \<Rightarrow> string) \<Rightarrow> session \<Rightarrow> miniflux_entry list \<Rightarrow> string list" where
  "observed_times md5_hexdigest s data =
    map (\<lambda>entry. get_default (mf_published_at entry) [])
      (filter (\<lambda>entry. \<not> is_job_already_processed md5_hexdigest s
                          (get_default (mf_title entry) []) (get_default (mf_url entry) []))
         data)"

section \<open>collector/scheduler.py: storing the fetched entries\<close>

text \<open>
  The loop of \<open>fetch_and_analyze_jobs\<close> over the fetched entries; an exception of
  \<open>add_job_entry\<close> ends it.
\<close>

fun add_entries :: "(string \<Rightarrow> string) \<Rightarrow> session \<Rightarrow> entry_data list \<Rightarrow> nat \<Rightarrow> error + (nat \<times> session)" where
  "add_entries md5_hexdigest s [] new_count = Inr (new_count, s)"
| "add_entries md5_hexdigest s (entry # rest) new_count =
    (case add_job_entry md5_hexdigest s entry of
       Inl e \<Rightarrow> Inl e
     | Inr (added, s') \<Rightarrow> add_entries md5_hexdigest s' rest (if added then new_count + 1 else new_count))"

section \<open>Python's \<open>int\<close> on ASCII text\<close>

text \<open>
  The relevance gate takes Python's \<open>int(score.strip())\<close> as a parameter. For the
  concrete runs below, \<open>py_int_ascii\<close> is that parser on ASCII text: surrounding
  whitespace is dropped, then an optional sign and decimal digits follow, with single
  underscores allowed between digits; anything else is a \<open>ValueError\<close> (\<open>None\<close>).
\<close>

definition is_space :: "char \<Rightarrow> bool" where
  "is_space c =
    (c \<in> set [CHR 0x09, CHR 0x0A, CHR 0x0B, CHR 0x0C, CHR 0x0D,
              CHR 0x1C, CHR 0x1D, CHR 0x1E, CHR 0x1F, CHR 0x20])"

definition strip :: "string \<Rightarrow> string" where
  "strip s = rev (dropWhile is_space (rev (dropWhile is_space s)))"

definition digit_value :: "char \<Rightarrow> nat option" where
  "digit_value c = map_of (zip ''0123456789'' [0, 1, 2, 3, 4, 5, 6, 7, 8, 9]) c"

fun digits_value :: "nat \<Rightarrow> string \<Rightarrow> nat option" where
  "digits_value acc [] = Some acc"
| "digits_value acc (c # cs) =
    (case digit_value c of
       Some d \<Rightarrow> digits_value (10 * acc + d) cs
     | None \<Rightarrow>
        (if c = CHR ''_''
         then (case cs of
                 [] \<Rightarrow> None
               | c' # _ \<Rightarrow> (if digit_value c' = None then None else digits_value acc cs))
         else None))"

definition unsigned_value :: "string \<Rightarrow> nat option" where
  "unsigned_value s =
    (case s of
       [] \<Rightarrow> None
     | c # _ \<Rightarrow> (if digit_value c = None then None else digits_value 0 s))"

definition py_int_ascii :: "string \<Rightarrow> int option" where
  "py_int_ascii score =
    (case strip score of
       [] \<Rightarrow> None
     | c # cs \<Rightarrow>
        (if c = CHR ''-'' then map_option (\<lambda>n. - int n) (unsigned_value cs)
         else if c = CHR ''+'' then map_option int (unsigned_value cs)
         else map_option int (unsigned_value (c # cs))))"

section \<open>Example inputs\<close>

text \<open>A posting as the fetchers build it, with every key the store reads.\<close>

definition entry0 :: entry_data where
  "entry0 = \<lparr> ed_title = Some ''Assistant Professor X'', ed_link = Some ''https://example.com/1'',
     ed_description = Some ''d'', ed_content = Some ''c'', ed_published = Some ''p'',
     ed_source = Some ''s'', ed_category = Some ''general'', ed_relevance_score = None \<rparr>"

text \<open>Two postings that differ in title and link and agree once joined with \<open>|\<close>.\<close>

definition entry_ab_c :: entry_data where
  "entry_ab_c = entry0\<lparr> ed_title := Some ''a|b'', ed_link := Some ''c'' \<rparr>"

definition entry_a_bc :: entry_data where
  "entry_a_bc = entry0\<lparr> ed_title := Some ''a'', ed_link := Some ''b|c'' \<rparr>"

text \<open>A stored, not yet analyzed record.\<close>

definition row0 :: JobEntry where
  "row0 = \<lparr> je_id = ''0'', je_title = ''t'', je_link = ''l'', je_description = ''d'',
     je_content = ''c'', je_published = ''p'', je_source = ''s'', je_category = ''general'',
     je_analyzed = False, je_analysis_result = None, je_relevance_score = 0 \<rparr>"

text \<open>A toy embedding model (a text's embedding is its length), an empty index, two analyzed records.\<close>

definition em0 :: "nat embedder" where
  "em0 = \<lparr> encode = (\<lambda>texts. Inr (map length texts)), normalize_L2 = (\<lambda>v. v),
           dim = (\<lambda>v. 1) \<rparr>"

definition vs_empty :: "nat VectorStore" where
  "vs_empty = \<lparr> index_d = 1, index_rows = [], documents = [] \<rparr>"

definition row1 :: JobEntry where
  "row1 = row0\<lparr> je_id := ''1'', je_title := ''Assistant Professor X'',
                 je_analyzed := True, je_analysis_result := Some ''ok'' \<rparr>"

definition row2 :: JobEntry where
  "row2 = row0\<lparr> je_id := ''2'', je_title := ''Postdoc'', je_analyzed := True \<rparr>"

text \<open>
  A configuration with keywords and a watermark; an analysis service that answers every
  prompt with the same text, and one whose every request fails.
\<close>

definition cfg0 :: config where
  "cfg0 = \<lparr> cfg_keywords = Some [''machine learning'', ''robotics''],
            cfg_recruitment_filters = None,
            cfg_last_miniflux_fetch = Some ''2024-01-01T00:00:00Z'' \<rparr>"

definition be_reply :: "string \<Rightarrow> llm_backends" where
  "be_reply r = \<lparr> ollama_request = (\<lambda>prompt. Inr r), openai_request = (\<lambda>prompt. Inr r),
                  anthropic_request = (\<lambda>prompt. Inr r) \<rparr>"

definition be_down :: llm_backends where
  "be_down = \<lparr> ollama_request = (\<lambda>prompt. Inl ''timeout''),
               openai_request = (\<lambda>prompt. Inl ''timeout''),
               anthropic_request = (\<lambda>prompt. Inl ''timeout'') \<rparr>"

text \<open>
  A web where the reader service is down and the page has no element any selector
  matches: its text is \<open>Job body\<close> once navigation is removed, \<open>Menu Job body\<close> with
  only script and style removed. A second page of 6000 characters; a web where every
  request fails.
\<close>

definition soup_page :: soup where
  "soup_page = \<lparr> select_one_text = (\<lambda>selector. None), get_text = ''Job body'' \<rparr>"

definition web_page :: web where
  "web_page = \<lparr> jina_get = (\<lambda>url. Inl (RequestError ''timeout'')),
                enhanced_get = (\<lambda>url. Inr soup_page),
                basic_get = (\<lambda>url. Inr ''Menu Job body'') \<rparr>"

definition web_long :: web where
  "web_long = \<lparr> jina_get = (\<lambda>url. Inl (RequestError ''timeout'')),
                enhanced_get = (\<lambda>url. Inr \<lparr> select_one_text = (\<lambda>selector. None),
                                             get_text = replicate 6000 CHR ''x'' \<rparr>),
                basic_get = (\<lambda>url. Inr (replicate 6000 CHR ''x'')) \<rparr>"

definition web_down :: web where
  "web_down = \<lparr> jina_get = (\<lambda>url. Inl (RequestError ''timeout'')),
                enhanced_get = (\<lambda>url. Inl (RequestError ''timeout'')),
                basic_get = (\<lambda>url. Inl (RequestError ''timeout'')) \<rparr>"

text \<open>A web where only the unstructured request succeeds.\<close>

definition web_basic_only :: web where
  "web_basic_only = \<lparr> jina_get = (\<lambda>url. Inr (503, ''Service Unavailable'')),
                enhanced_get = (\<lambda>url. Inl (RequestError ''timeout'')),
                basic_get = (\<lambda>url. Inr ''Menu Job body'') \<rparr>"

text \<open>A Miniflux entry published after the watermark of \<open>cfg0\<close>, and the record of the same posting.\<close>

definition mf0 :: miniflux_entry where
  "mf0 = \<lparr> mf_title = Some ''Assistant Professor X'', mf_url = Some ''https://example.com/1'',
           mf_published_at = Some ''2024-02-01T00:00:00Z'', mf_description = None,
           mf_link = None, mf_content = Some ''We hire.'', mf_feed_title = Some ''Jobs'',
           mf_relevance_score = None \<rparr>"

definition stored0 :: "(string \<Rightarrow> string) \<Rightarrow> int \<Rightarrow> JobEntry" where
  "stored0 md5_hexdigest score =
     \<lparr> je_id = generate_job_id md5_hexdigest ''Assistant Professor X'' ''https://example.com/1'',
       je_title = ''Assistant Professor X'', je_link = ''https://example.com/1'',
       je_description = ''We hire.'', je_content = ''Job body'',
       je_published = ''2024-02-01T00:00:00Z'', je_source = ''Jobs'',
       je_category = ''general'', je_analyzed = False, je_analysis_result = None,
       je_relevance_score = score \<rparr>"

text \<open>A second Miniflux entry, published later.\<close>

definition mf_low :: miniflux_entry where
  "mf_low = \<lparr> mf_title = Some ''Lab Technician'', mf_url = Some ''https://example.com/2'',
           mf_published_at = Some ''2024-03-01T00:00:00Z'', mf_description = None,
           mf_link = None, mf_content = Some ''US citizens only.'', mf_feed_title = Some ''Jobs'',
           mf_relevance_score = None \<rparr>"

text \<open>The record of the same title stored under an empty link, with cached score 8.\<close>

definition stored_no_link :: "(string \<Rightarrow> string) \<Rightarrow> JobEntry" where
  "stored_no_link md5_hexdigest =
     (stored0 md5_hexdigest 8)
       \<lparr> je_id := generate_job_id md5_hexdigest ''Assistant Professor X'' [], je_link := [] \<rparr>"

section \<open>Properties of the record store\<close>

lemma query_first_by_id_None: "query_first_by_id s j = None \<longleftrightarrow> j \<notin> je_id ` set s"
  by (auto simp: query_first_by_id_def find_None_iff)

lemma query_first_by_id_Some: "query_first_by_id s j = Some r \<Longrightarrow> r \<in> set s \<and> je_id r = j"
  by (auto simp: query_first_by_id_def find_Some_iff)

lemma find_app:
  "find P (xs @ ys) = (case find P xs of None \<Rightarrow> find P ys | Some x \<Rightarrow> Some x)"
  by (induction xs) auto

lemma filter_key_absent: "j \<notin> f ` set xs \<Longrightarrow> filter (\<lambda>r. f r = j) xs = []"
  by (induction xs) auto

lemma filter_key_distinct:
  "distinct (map f xs) \<Longrightarrow> x \<in> set xs \<Longrightarrow> filter (\<lambda>r. f r = f x) xs = [x]"
proof (induction xs)
  case Nil
  then show ?case by simp
next
  case (Cons y ys)
  show ?case
  proof (cases "y = x")
    case True
    with Cons.prems have "f x \<notin> f ` set ys" by auto
    then have "filter (\<lambda>r. f r = f x) ys = []" by (rule filter_key_absent)
    with True show ?thesis by simp
  next
    case False
    with Cons.prems have "x \<in> set ys" and "f y \<noteq> f x" and "distinct (map f ys)" by auto
    with Cons.IH show ?thesis by simp
  qed
qed

lemma add_job_entry_existing:
  assumes "ed_title entry = Some t" and "ed_link entry = Some l"
    and "query_first_by_id s (generate_job_id md5_hexdigest t l) = Some r"
  shows "add_job_entry md5_hexdigest s entry = Inr (False, s)"
  using assms by (simp add: add_job_entry_def getitem_def)

lemma add_job_entry_new:
  assumes "ed_title entry = Some t" and "ed_link entry = Some l"
    and "ed_description entry = Some d" and "ed_content entry = Some c"
    and "ed_published entry = Some p" and "ed_source entry = Some so"
    and "ed_category entry = Some ca"
    and "query_first_by_id s (generate_job_id md5_hexdigest t l) = None"
  shows "add_job_entry md5_hexdigest s entry =
     Inr (True, s @ [\<lparr> je_id = generate_job_id md5_hexdigest t l, je_title = t, je_link = l,
              je_description = d, je_content = c,
              je_published = p, je_source = so, je_category = ca,
              je_analyzed = False, je_analysis_result = None,
              je_relevance_score = get_default (ed_relevance_score entry) 0 \<rparr>])"
  using assms by (simp add: add_job_entry_def getitem_def)

text \<open>
  C1. Idempotent ingestion. For a store that obeys its primary key and an entry with
  the keys \<open>add_job_entry\<close> reads, the first call succeeds and returns \<open>True\<close>
  exactly when no record with the entry's id exists; a second call with the same entry
  returns \<open>False\<close> and leaves the store unchanged; and the store then holds exactly
  one record with that id.
\<close>

theorem add_job_entry_idempotent:
  assumes keys: "has_required_keys entry" and pk: "primary_key s"
  shows "\<exists>inserted s'.
           add_job_entry md5_hexdigest s entry = Inr (inserted, s')
         \<and> (inserted \<longleftrightarrow> query_first_by_id s (entry_job_id md5_hexdigest entry) = None)
         \<and> add_job_entry md5_hexdigest s' entry = Inr (False, s')
         \<and> length (filter (\<lambda>r. je_id r = entry_job_id md5_hexdigest entry) s') = 1
         \<and> primary_key s'"
proof -
  from keys obtain t l d c p so ca where
    k: "ed_title entry = Some t" "ed_link entry = Some l" "ed_description entry = Some d"
       "ed_content entry = Some c" "ed_published entry = Some p" "ed_source entry = Some so"
       "ed_category entry = Some ca"
    by (auto simp: has_required_keys_def)
  define j where "j = generate_job_id md5_hexdigest t l"
  have ej: "entry_job_id md5_hexdigest entry = j"
    by (simp add: entry_job_id_def k get_default_def j_def)
  show ?thesis
  proof (cases "query_first_by_id s j")
    case None
    define row where "row = \<lparr> je_id = j, je_title = t, je_link = l,
              je_description = d, je_content = c,
              je_published = p, je_source = so, je_category = ca,
              je_analyzed = False, je_analysis_result = None,
              je_relevance_score = get_default (ed_relevance_score entry) 0 \<rparr>"
    have first: "add_job_entry md5_hexdigest s entry = Inr (True, s @ [row])"
      using add_job_entry_new [OF k, where s = s and md5_hexdigest = md5_hexdigest] None by (simp add: j_def row_def)
    have absent: "j \<notin> je_id ` set s"
      using None by (simp add: query_first_by_id_None)
    have found: "query_first_by_id (s @ [row]) j = Some row"
      using None by (simp add: query_first_by_id_def find_app row_def)
    have second: "add_job_entry md5_hexdigest (s @ [row]) entry = Inr (False, s @ [row])"
      using add_job_entry_existing [OF k(1,2), where s = "s @ [row]" and md5_hexdigest = md5_hexdigest and r = row] found by (simp add: j_def)
    have count: "length (filter (\<lambda>r. je_id r = j) (s @ [row])) = 1"
      using filter_key_absent [OF absent] by (simp add: row_def)
    have pk': "primary_key (s @ [row])"
      using pk absent by (auto simp: primary_key_def row_def)
    show ?thesis unfolding ej
      by (rule exI [where x = True], rule exI [where x = "s @ [row]"])
         (simp only: first second count pk' None simp_thms)
  next
    case (Some r)
    have first: "add_job_entry md5_hexdigest s entry = Inr (False, s)"
      using add_job_entry_existing [OF k(1,2), where s = s and md5_hexdigest = md5_hexdigest and r = r] Some by (simp add: j_def)
    from query_first_by_id_Some [OF Some] have "r \<in> set s" and "je_id r = j" by auto
    with pk filter_key_distinct [of je_id s r] have "filter (\<lambda>r. je_id r = j) s = [r]"
      by (simp add: primary_key_def)
    then have count: "length (filter (\<lambda>r. je_id r = j) s) = 1" by simp
    show ?thesis unfolding ej
      by (rule exI [where x = False], rule exI [where x = s])
         (simp only: first count pk Some simp_thms option.simps)
  qed
qed

theorem add_job_entry_idempotent_witness:
  "has_required_keys entry0 \<and> primary_key [] \<and>
   (\<exists>inserted s'.
           add_job_entry (\<lambda>x. x) [] entry0 = Inr (inserted, s')
         \<and> (inserted \<longleftrightarrow> query_first_by_id [] (entry_job_id (\<lambda>x. x) entry0) = None)
         \<and> add_job_entry (\<lambda>x. x) s' entry0 = Inr (False, s')
         \<and> length (filter (\<lambda>r. je_id r = entry_job_id (\<lambda>x. x) entry0) s') = 1
         \<and> primary_key s')"
proof -
  have h1: "has_required_keys entry0" by (simp add: has_required_keys_def entry0_def)
  have h2: "primary_key []" by (simp add: primary_key_def)
  show ?thesis using h1 h2 add_job_entry_idempotent [OF h1 h2, of "\<lambda>x. x"] by blast
qed

lemma separator_splits_once:
  "x \<notin> set t1 \<Longrightarrow> x \<notin> set t2 \<Longrightarrow> t1 @ x # l1 = t2 @ x # l2 \<Longrightarrow> t1 = t2 \<and> l1 = l2"
proof (induction t1 arbitrary: t2)
  case Nil
  then show ?case by (cases t2) auto
next
  case (Cons a as)
  then show ?case by (cases t2) auto
qed

lemma joined_injective:
  assumes "CHR ''|'' \<notin> set t1" and "CHR ''|'' \<notin> set t2"
    and "t1 @ ''|'' @ l1 = t2 @ ''|'' @ l2"
  shows "t1 = t2 \<and> l1 = l2"
  using assms separator_splits_once [of "CHR ''|''" t1 t2 l1 l2] by simp

text \<open>
  C3 does not hold of the code. \<open>generate_job_id\<close> joins title and link with
  \<open>|\<close> and does not escape a \<open>|\<close> inside either, so the distinct pairs
  \<open>('a|b', 'c')\<close> and \<open>('a', 'b|c')\<close> are hashed as the same string and get the same
  id under any hash function; stored one after the other, the second posting is
  dropped as a duplicate of the first.
\<close>

theorem generate_job_id_separator_collision:
  "(''a|b'', ''c'') \<noteq> (''a'', ''b|c'')
   \<and> generate_job_id md5_hexdigest ''a|b'' ''c'' = generate_job_id md5_hexdigest ''a'' ''b|c''
   \<and> add_entries md5_hexdigest [] [entry_ab_c, entry_a_bc] 0
       = Inr (1, [\<lparr> je_id = md5_hexdigest ''a|b|c'', je_title = ''a|b'', je_link = ''c'',
                     je_description = ''d'', je_content = ''c'', je_published = ''p'',
                     je_source = ''s'', je_category = ''general'', je_analyzed = False,
                     je_analysis_result = None, je_relevance_score = 0 \<rparr>])"
  by (simp add: generate_job_id_def add_job_entry_def getitem_def query_first_by_id_def
        get_default_def entry_ab_c_def entry_a_bc_def entry0_def Let_def)

text \<open>
  Where no title contains the separator, two distinct pairs are hashed as two distinct
  strings: an id they share is a collision of the hash at exactly those two strings.
\<close>

lemma generate_job_id_collision_located:
  assumes "CHR ''|'' \<notin> set t1" and "CHR ''|'' \<notin> set t2" and "(t1, l1) \<noteq> (t2, l2)"
    and "generate_job_id md5_hexdigest t1 l1 = generate_job_id md5_hexdigest t2 l2"
  shows "t1 @ ''|'' @ l1 \<noteq> t2 @ ''|'' @ l2
       \<and> md5_hexdigest (t1 @ ''|'' @ l1) = md5_hexdigest (t2 @ ''|'' @ l2)"
  using assms joined_injective [of t1 t2 l1 l2] by (auto simp: generate_job_id_def)

section \<open>Properties of the vector index\<close>

lemma add_job_entries_step:
  assumes enc: "encode_one_row_per_text em"
    and len: "length (index_rows vs) = length (documents vs)"
  shows "index_d (snd (add_job_entries em vs b)) = index_d vs
       \<and> length (index_rows (snd (add_job_entries em vs b)))
           = length (documents (snd (add_job_entries em vs b)))
       \<and> zip (index_rows (snd (add_job_entries em vs b)))
             (documents (snd (add_job_entries em vs b)))
           = zip (index_rows vs) (documents vs) @ call_pairs em (index_d vs) b"
proof (cases "b = []")
  case True
  then show ?thesis using len by (simp add: add_job_entries_def call_pairs_def)
next
  case False
  show ?thesis
  proof (cases "encode em (map searchable_text b)")
    case (Inl e)
    then show ?thesis using False len by (simp add: add_job_entries_def call_pairs_def)
  next
    case (Inr embeddings)
    with enc have n: "length embeddings = length b"
      by (auto simp: encode_one_row_per_text_def)
    show ?thesis
      using False len Inr n
      by (simp add: add_job_entries_def call_pairs_def index_add_def)
  qed
qed

lemma add_calls_from:
  assumes enc: "encode_one_row_per_text em"
  shows "length (index_rows vs) = length (documents vs) \<Longrightarrow>
         length (index_rows (add_calls em vs calls)) = length (documents (add_calls em vs calls))
       \<and> zip (index_rows (add_calls em vs calls)) (documents (add_calls em vs calls))
           = zip (index_rows vs) (documents vs) @ concat (map (call_pairs em (index_d vs)) calls)"
proof (induction calls arbitrary: vs)
  case Nil
  then show ?case by simp
next
  case (Cons b bs)
  from add_job_entries_step [OF enc Cons.prems, of b]
  have d: "index_d (snd (add_job_entries em vs b)) = index_d vs"
    and l: "length (index_rows (snd (add_job_entries em vs b)))
           = length (documents (snd (add_job_entries em vs b)))"
    and z: "zip (index_rows (snd (add_job_entries em vs b)))
             (documents (snd (add_job_entries em vs b)))
           = zip (index_rows vs) (documents vs) @ call_pairs em (index_d vs) b"
    by simp_all
  from Cons.IH [OF l] show ?case by (simp add: d z)
qed

text \<open>
  C2. Index and metadata alignment. Given an embedding model that returns one row per
  text, after any sequence of \<open>add_job_entries\<close> calls on an empty index with an empty
  document list, the index holds as many rows as \<open>documents\<close> has entries, and paired
  by position they are, call after call in order, the k-th embedding of a call's batch
  beside the k-th document of that batch.
\<close>

theorem add_job_entries_alignment:
  assumes "encode_one_row_per_text em"
    and "index_rows vs = []" and "documents vs = []"
  shows "ntotal (add_calls em vs calls) = length (documents (add_calls em vs calls))
       \<and> zip (index_rows (add_calls em vs calls)) (documents (add_calls em vs calls))
           = concat (map (call_pairs em (index_d vs)) calls)"
  using add_calls_from [OF assms(1), of vs calls] assms(2,3) by (simp add: ntotal_def)

theorem add_job_entries_alignment_witness:
  "encode_one_row_per_text em0 \<and> index_rows vs_empty = [] \<and> documents vs_empty = []
   \<and> ntotal (add_calls em0 vs_empty [[row1], [], [row2, row1]]) = 3
   \<and> length (documents (add_calls em0 vs_empty [[row1], [], [row2, row1]])) = 3
   \<and> zip (index_rows (add_calls em0 vs_empty [[row1], [], [row2, row1]]))
          (documents (add_calls em0 vs_empty [[row1], [], [row2, row1]]))
      = [(length (searchable_text row1), make_doc row1),
         (length (searchable_text row2), make_doc row2),
         (length (searchable_text row1), make_doc row1)]"
proof -
  have h1: "encode_one_row_per_text em0"
    by (auto simp: encode_one_row_per_text_def em0_def)
  have h2: "index_rows vs_empty = []" and h3: "documents vs_empty = []"
    by (simp_all add: vs_empty_def)
  have pairs: "concat (map (call_pairs em0 (index_d vs_empty)) [[row1], [], [row2, row1]])
      = [(length (searchable_text row1), make_doc row1),
         (length (searchable_text row2), make_doc row2),
         (length (searchable_text row1), make_doc row1)]"
    by (simp add: call_pairs_def em0_def vs_empty_def)
  have n: "length (documents (add_calls em0 vs_empty [[row1], [], [row2, row1]])) = 3"
    by (simp add: add_job_entries_def index_add_def em0_def vs_empty_def)
  show ?thesis
    using add_job_entries_alignment [OF h1 h2 h3, of "[[row1], [], [row2, row1]]"] h1 h2 h3 pairs n
    by simp
qed

text \<open>
  C8 does not hold of the code. \<open>rebuild_index\<close> reads \<open>db_manager.JobEntry\<close>, which
  a \<open>DatabaseManager\<close> does not have: once the fresh index is created, the call raises
  \<open>AttributeError\<close> for every store and leaves the index empty.
\<close>

theorem rebuild_index_raises_AttributeError:
  "rebuild_index em vs s =
     (case create_new_index em of
        Inl e \<Rightarrow> (Some e, vs)
      | Inr vs0 \<Rightarrow> (Some (AttributeError ''JobEntry''), vs0))
   \<and> ntotal (snd (rebuild_index em vs s)) =
     (case create_new_index em of Inl e \<Rightarrow> ntotal vs | Inr vs0 \<Rightarrow> 0)"
  by (simp add: rebuild_index_def db_manager_getattr_def DatabaseManager_attributes_def
        create_new_index_def ntotal_def split: sum.splits list.splits)

text \<open>The batch loop it never reaches would split 250 records into 100, 100 and 50.\<close>

lemma rebuild_batches_250:
  "length xs = 250 \<Longrightarrow>
   map length (map (\<lambda>i. slice xs i (i + 100)) (py_range 0 (length xs) 100)) = [100, 100, 50]"
  by (simp add: py_range_def slice_def upt_conv_Cons)

section \<open>Properties of the statistics\<close>

text \<open>
  C10. \<open>get_stats\<close> returns \<open>analyzed_jobs = total_jobs - pending_analysis\<close>, where
  \<open>pending_analysis\<close> counts every unanalyzed record and \<open>total_jobs\<close> counts at most
  the first 10000 records. For a store of more than 10000 records \<open>total_jobs\<close> is
  10000 and not the record count, and analyzed plus pending equals the record count
  exactly when the store holds at most 10000 records.
\<close>

theorem get_stats_capped:
  "analyzed_jobs (get_stats s) = total_jobs (get_stats s) - pending_analysis (get_stats s)
   \<and> pending_analysis (get_stats s) = int (length (filter (\<lambda>j. \<not> je_analyzed j) s))
   \<and> total_jobs (get_stats s) = int (min (length s) 10000)
   \<and> (length s > 10000 \<longrightarrow>
        total_jobs (get_stats s) = 10000 \<and> total_jobs (get_stats s) \<noteq> int (length s))
   \<and> (analyzed_jobs (get_stats s) + pending_analysis (get_stats s) = int (length s)
        \<longleftrightarrow> length s \<le> 10000)"
  by (auto simp: get_stats_def get_all_entries_def get_unanalyzed_entries_def Let_def min_def)

theorem get_stats_capped_witness:
  "length (replicate 10001 row0) > 10000 \<and>
   total_jobs (get_stats (replicate 10001 row0)) = 10000 \<and>
   pending_analysis (get_stats (replicate 10001 row0)) = 10001 \<and>
   analyzed_jobs (get_stats (replicate 10001 row0)) = -1 \<and>
   total_jobs (get_stats (replicate 10001 row0)) \<noteq> int (length (replicate 10001 row0))"
proof -
  have h: "length (replicate 10001 row0) > 10000" by simp
  have p: "pending_analysis (get_stats (replicate 10001 row0)) = 10001"
    using get_stats_capped [of "replicate 10001 row0"] by (simp add: row0_def)
  show ?thesis using h p get_stats_capped [of "replicate 10001 row0"] by simp
qed

section \<open>Properties of the relevance gate\<close>

lemma dropWhile_snoc_keeps:
  "\<not> P c \<Longrightarrow> \<exists>ys. dropWhile P (xs @ [c]) = ys @ [c]"
  by (induction xs) auto

lemma strip_Cons_nonspace: "\<not> is_space c \<Longrightarrow> \<exists>cs'. strip (c # cs) = c # cs'"
proof -
  assume c: "\<not> is_space c"
  from c dropWhile_snoc_keeps [of is_space c "rev cs"]
  obtain ys where "dropWhile is_space (rev cs @ [c]) = ys @ [c]" by auto
  then show ?thesis using c by (simp add: strip_def)
qed

lemma py_int_ascii_error_text: "py_int_ascii (''Error calling '' @ e) = None"
proof -
  have "\<not> is_space CHR ''E''" by (simp add: is_space_def)
  from strip_Cons_nonspace [OF this, of "''rror calling '' @ e"]
  obtain cs' where "strip (''Error calling '' @ e) = CHR ''E'' # cs'" by auto
  then show ?thesis
    by (simp add: py_int_ascii_def unsigned_value_def digit_value_def)
qed

lemma call_llm_backend_failure:
  "ollama_request be prompt = Inl e \<Longrightarrow>
     call_llm ''ollama'' be prompt = Inr (''Error calling Ollama: '' @ e)"
  "openai_request be prompt = Inl e \<Longrightarrow>
     call_llm ''openai'' be prompt = Inr (''Error calling OpenAI: '' @ e)"
  "anthropic_request be prompt = Inl e \<Longrightarrow>
     call_llm ''anthropic'' be prompt = Inr (''Error calling Anthropic: '' @ e)"
  by (simp_all add: call_llm_def call_ollama_def call_openai_def call_anthropic_def)

lemma cached_verdict_None_iff:
  "cached_verdict md5_hexdigest s title link = None \<longleftrightarrow>
     (\<not> truthy link \<or>
      (case query_first_by_id s (generate_job_id md5_hexdigest title (get_default link [])) of
         None \<Rightarrow> True
       | Some cached \<Rightarrow> je_relevance_score cached \<le> 0))"
  by (auto simp: cached_verdict_def truthy_def get_default_def split: option.splits)

text \<open>
  C4. Fail-open scoring. With no cached verdict and a prompt built from the
  configuration, if the scoring call raises, or returns text that \<open>int\<close> rejects,
  \<open>_quick_relevance_check\<close> returns \<open>(True, 6)\<close>.
\<close>

theorem quick_relevance_check_fail_open:
  assumes "cached_verdict md5_hexdigest s title link = None"
    and "relevance_prompt cfg title description = Inr prompt"
    and "(\<exists>e. call_llm provider be prompt = Inl e) \<or>
         (\<exists>score. call_llm provider be prompt = Inr score \<and> py_int score = None)"
  shows "quick_relevance_check md5_hexdigest s cfg provider be py_int title description link
           = Inr (True, 6)"
  using assms by (auto simp: quick_relevance_check_def)

theorem quick_relevance_check_fail_open_witness:
  "cached_verdict (\<lambda>x. x) [] ''Assistant Professor X'' (Some ''https://example.com/1'') = None
   \<and> (\<exists>prompt. relevance_prompt cfg0 ''Assistant Professor X'' ''We hire.'' = Inr prompt
        \<and> call_llm ''ollama'' be_down prompt = Inr ''Error calling Ollama: timeout'')
   \<and> py_int_ascii ''Error calling Ollama: timeout'' = None
   \<and> quick_relevance_check (\<lambda>x. x) [] cfg0 ''ollama'' be_down py_int_ascii
        ''Assistant Professor X'' ''We hire.'' (Some ''https://example.com/1'') = Inr (True, 6)
   \<and> (\<exists>prompt e. relevance_prompt cfg0 ''Assistant Professor X'' ''We hire.'' = Inr prompt
        \<and> call_llm ''llama.cpp'' be_down prompt = Inl e)
   \<and> quick_relevance_check (\<lambda>x. x) [] cfg0 ''llama.cpp'' be_down py_int_ascii
        ''Assistant Professor X'' ''We hire.'' (Some ''https://example.com/1'') = Inr (True, 6)"
proof -
  have h1: "cached_verdict (\<lambda>x. x) [] ''Assistant Professor X'' (Some ''https://example.com/1'') = None"
    by (simp add: cached_verdict_def query_first_by_id_def)
  obtain prompt where h2: "relevance_prompt cfg0 ''Assistant Professor X'' ''We hire.'' = Inr prompt"
    by (simp add: relevance_prompt_def cfg0_def getitem_def Let_def get_default_def)
  have c1: "call_llm ''ollama'' be_down prompt = Inr ''Error calling Ollama: timeout''"
    by (simp add: call_llm_def call_ollama_def be_down_def)
  have p1: "py_int_ascii ''Error calling Ollama: timeout'' = None"
    using py_int_ascii_error_text [of "''Ollama: timeout''"] by simp
  have c2: "call_llm ''llama.cpp'' be_down prompt = Inl (ValueError ''Unsupported LLM provider: llama.cpp'')"
    by (simp add: call_llm_def)
  have r1: "quick_relevance_check (\<lambda>x. x) [] cfg0 ''ollama'' be_down py_int_ascii
        ''Assistant Professor X'' ''We hire.'' (Some ''https://example.com/1'') = Inr (True, 6)"
    using quick_relevance_check_fail_open [OF h1 h2, of "''ollama''" be_down py_int_ascii] c1 p1
    by simp
  have r2: "quick_relevance_check (\<lambda>x. x) [] cfg0 ''llama.cpp'' be_down py_int_ascii
        ''Assistant Professor X'' ''We hire.'' (Some ''https://example.com/1'') = Inr (True, 6)"
    using quick_relevance_check_fail_open [OF h1 h2, of "''llama.cpp''" be_down py_int_ascii] c2
    by simp
  show ?thesis using h1 h2 c1 p1 c2 r1 r2 by blast
qed

text \<open>
  C5, as stated, fails for an identity whose link is empty: the record stored under
  that identity has score 8, yet the cache is not consulted and the verdict follows the
  scoring service.
\<close>

theorem quick_relevance_check_empty_link_skips_cache:
  "\<forall>md5_hexdigest.
     query_first_by_id [stored_no_link md5_hexdigest]
        (generate_job_id md5_hexdigest ''Assistant Professor X'' [])
       = Some (stored_no_link md5_hexdigest)
   \<and> je_relevance_score (stored_no_link md5_hexdigest) = 8
   \<and> quick_relevance_check md5_hexdigest [stored_no_link md5_hexdigest]
        cfg0 ''ollama'' (be_reply ''3'') py_int_ascii ''Assistant Professor X'' ''We hire.'' (Some [])
       = Inr (False, 3)
   \<and> quick_relevance_check md5_hexdigest [stored_no_link md5_hexdigest]
        cfg0 ''ollama'' (be_reply ''9'') py_int_ascii ''Assistant Professor X'' ''We hire.'' (Some [])
       = Inr (True, 9)"
  by (simp add: quick_relevance_check_def cached_verdict_def relevance_prompt_def cfg0_def
        getitem_def call_llm_def call_ollama_def be_reply_def stored0_def stored_no_link_def
        query_first_by_id_def Let_def get_default_def py_int_ascii_def strip_def is_space_def
        unsigned_value_def digit_value_def)

text \<open>
  C5, amended. For a non-empty link whose identity has a stored record with
  \<open>relevance_score > 0\<close>, \<open>_quick_relevance_check\<close> returns
  \<open>(cached_score >= 6, cached_score)\<close>, and the result is the same for any two
  configurations, providers, service behaviours, parsers and descriptions: the
  scoring service has no part in it.
\<close>

theorem quick_relevance_check_cache_hit:
  assumes "link \<noteq> []"
    and "query_first_by_id s (generate_job_id md5_hexdigest title link) = Some cached"
    and "je_relevance_score cached > 0"
  shows "quick_relevance_check md5_hexdigest s cfg provider be py_int title description (Some link)
           = Inr (je_relevance_score cached \<ge> 6, je_relevance_score cached)
       \<and> quick_relevance_check md5_hexdigest s cfg provider be py_int title description (Some link)
           = quick_relevance_check md5_hexdigest s cfg' provider' be' py_int' title description' (Some link)"
  using assms by (simp add: quick_relevance_check_def cached_verdict_def)

theorem quick_relevance_check_cache_hit_witness:
  "''https://example.com/1'' \<noteq> []
   \<and> query_first_by_id [stored0 (\<lambda>x. x) 8]
         (generate_job_id (\<lambda>x. x) ''Assistant Professor X'' ''https://example.com/1'')
        = Some (stored0 (\<lambda>x. x) 8)
   \<and> je_relevance_score (stored0 (\<lambda>x. x) 8) > 0
   \<and> quick_relevance_check (\<lambda>x. x) [stored0 (\<lambda>x. x) 8] cfg0 ''ollama'' (be_reply ''3'')
         py_int_ascii ''Assistant Professor X'' ''We hire.'' (Some ''https://example.com/1'')
        = Inr (True, 8)
   \<and> quick_relevance_check (\<lambda>x. x) [stored0 (\<lambda>x. x) 8] cfg0 ''ollama'' (be_reply ''3'')
         py_int_ascii ''Assistant Professor X'' ''We hire.'' (Some ''https://example.com/1'')
        = quick_relevance_check (\<lambda>x. x) [stored0 (\<lambda>x. x) 8] cfg0 ''llama.cpp'' be_down
         (\<lambda>score. None) ''Assistant Professor X'' ''Other text'' (Some ''https://example.com/1'')"
proof -
  have h1: "''https://example.com/1'' \<noteq> []" by simp
  have h2: "query_first_by_id [stored0 (\<lambda>x. x) 8]
         (generate_job_id (\<lambda>x. x) ''Assistant Professor X'' ''https://example.com/1'')
        = Some (stored0 (\<lambda>x. x) 8)"
    by (simp add: query_first_by_id_def stored0_def)
  have h3: "je_relevance_score (stored0 (\<lambda>x. x) 8) > 0" by (simp add: stored0_def)
  have v: "je_relevance_score (stored0 (\<lambda>x. x) 8) = 8" by (simp add: stored0_def)
  note th = quick_relevance_check_cache_hit [OF h1 h2 h3, where cfg = cfg0 and provider = "''ollama''"
        and be = "be_reply ''3''" and py_int = py_int_ascii and description = "''We hire.''"
        and cfg' = cfg0 and provider' = "''llama.cpp''" and be' = be_down
        and py_int' = "\<lambda>score. None" and description' = "''Other text''"]
  have a: "quick_relevance_check (\<lambda>x. x) [stored0 (\<lambda>x. x) 8] cfg0 ''ollama'' (be_reply ''3'')
         py_int_ascii ''Assistant Professor X'' ''We hire.'' (Some ''https://example.com/1'')
        = Inr (True, 8)"
    using th [THEN conjunct1] by (simp add: v)
  show ?thesis
    by (intro conjI) (rule h1 h2 h3 a th [THEN conjunct2])+
qed

section \<open>Properties of the content fetcher\<close>

lemma first_substantial_length: "first_substantial sp sels = Some text \<Longrightarrow> length text \<le> 8000"
  by (induction sels) (auto split: option.splits if_splits)

lemma first_substantial_None_iff:
  "first_substantial sp sels = None \<longleftrightarrow>
     (\<forall>selector \<in> set sels. \<forall>text. select_one_text sp selector = Some text \<longrightarrow> length text \<le> 200)"
  by (induction sels) (auto split: option.splits)

lemma fetch_with_jina_length: "length (fetch_with_jina w url) \<le> 8000"
  by (simp add: fetch_with_jina_def split: sum.splits prod.splits)

lemma fetch_with_enhanced_bs4_length: "length (fetch_with_enhanced_bs4 w url) \<le> 8000"
  by (auto simp: fetch_with_enhanced_bs4_def first_substantial_length split: sum.splits option.splits)

lemma fetch_basic_content_length: "length (fetch_basic_content w url) \<le> 5000"
  by (simp add: fetch_basic_content_def split: sum.splits)

text \<open>
  C9, as stated, fails: with the reader service down and no selector matching, the
  result is the structured strategy's own page text (\<open>Job body\<close>, up to 8000
  characters), not the unstructured fallback (\<open>Menu Job body\<close>, up to 5000).
\<close>

theorem fetch_full_content_unstructured_not_reached:
  "fetch_with_jina web_page ''https://example.com/1'' = []
   \<and> enhanced_get web_page ''https://example.com/1'' = Inr soup_page
   \<and> first_substantial soup_page content_selectors = None
   \<and> fetch_basic_content web_page ''https://example.com/1'' = ''Menu Job body''
   \<and> fetch_full_content web_page ''https://example.com/1'' = ''Job body''
   \<and> fetch_with_jina web_long ''https://example.com/1'' = []
   \<and> length (fetch_basic_content web_long ''https://example.com/1'') = 5000
   \<and> length (fetch_full_content web_long ''https://example.com/1'') = 6000"
  by (simp add: fetch_full_content_def fetch_with_jina_def fetch_with_enhanced_bs4_def
        fetch_basic_content_def web_page_def web_long_def soup_page_def content_selectors_def)

text \<open>
  C9, amended. \<open>_fetch_full_content\<close> is total (it never raises) and returns at most
  8000 characters; it returns the empty string for an empty URL and when all three
  requests fail. When the reader service yields nothing and no selector yields more than
  200 characters, the result is the structured strategy's page text truncated to 8000
  characters if that is non-empty; the unstructured fallback, truncated to 5000
  characters, is returned when the structured text is empty or the structured strategy
  raises.
\<close>

theorem fetch_full_content_chain:
  "length (fetch_full_content w url) \<le> 8000
   \<and> (url = [] \<longrightarrow> fetch_full_content w url = [])
   \<and> ((\<exists>e. jina_get w (''https://r.jina.ai/'' @ url) = Inl e) \<and> (\<exists>e. enhanced_get w url = Inl e)
        \<and> (\<exists>e. basic_get w url = Inl e) \<longrightarrow> fetch_full_content w url = [])
   \<and> (url \<noteq> [] \<and> fetch_with_jina w url = [] \<and> enhanced_get w url = Inr sp
        \<and> (\<forall>selector \<in> set content_selectors. \<forall>text.
              select_one_text sp selector = Some text \<longrightarrow> length text \<le> 200)
       \<longrightarrow> fetch_full_content w url =
             (if get_text sp \<noteq> [] then take 8000 (get_text sp)
              else (case basic_get w url of Inl e \<Rightarrow> [] | Inr text \<Rightarrow> take 5000 text)))
   \<and> (url \<noteq> [] \<and> fetch_with_jina w url = [] \<and> (\<exists>e. enhanced_get w url = Inl e)
       \<longrightarrow> fetch_full_content w url =
             (case basic_get w url of Inl e \<Rightarrow> [] | Inr text \<Rightarrow> take 5000 text))"
proof (intro conjI impI)
  show "length (fetch_full_content w url) \<le> 8000"
    using fetch_with_jina_length [of w url] fetch_with_enhanced_bs4_length [of w url]
      fetch_basic_content_length [of w url]
    by (simp add: fetch_full_content_def Let_def)
next
  assume "url = []"
  then show "fetch_full_content w url = []" by (simp add: fetch_full_content_def)
next
  assume "(\<exists>e. jina_get w (''https://r.jina.ai/'' @ url) = Inl e) \<and> (\<exists>e. enhanced_get w url = Inl e)
        \<and> (\<exists>e. basic_get w url = Inl e)"
  then show "fetch_full_content w url = []"
    by (auto simp: fetch_full_content_def fetch_with_jina_def fetch_with_enhanced_bs4_def
          fetch_basic_content_def)
next
  assume h: "url \<noteq> [] \<and> fetch_with_jina w url = [] \<and> enhanced_get w url = Inr sp
        \<and> (\<forall>selector \<in> set content_selectors. \<forall>text.
              select_one_text sp selector = Some text \<longrightarrow> length text \<le> 200)"
  then have "\<forall>selector \<in> set content_selectors. \<forall>text.
              select_one_text sp selector = Some text \<longrightarrow> length text \<le> 200"
    by (elim conjE)
  then have "first_substantial sp content_selectors = None"
    by (simp only: first_substantial_None_iff)
  with h show "fetch_full_content w url =
             (if get_text sp \<noteq> [] then take 8000 (get_text sp)
              else (case basic_get w url of Inl e \<Rightarrow> [] | Inr text \<Rightarrow> take 5000 text))"
    by (simp add: fetch_full_content_def fetch_with_enhanced_bs4_def fetch_basic_content_def)
next
  assume "url \<noteq> [] \<and> fetch_with_jina w url = [] \<and> (\<exists>e. enhanced_get w url = Inl e)"
  then show "fetch_full_content w url =
             (case basic_get w url of Inl e \<Rightarrow> [] | Inr text \<Rightarrow> take 5000 text)"
    by (auto simp: fetch_full_content_def fetch_with_enhanced_bs4_def fetch_basic_content_def)
qed


theorem fetch_full_content_chain_witness:
  "fetch_full_content web_page [] = []
   \<and> jina_get web_down (''https://r.jina.ai/'' @ ''https://example.com/1'') = Inl (RequestError ''timeout'')
   \<and> enhanced_get web_down ''https://example.com/1'' = Inl (RequestError ''timeout'')
   \<and> basic_get web_down ''https://example.com/1'' = Inl (RequestError ''timeout'')
   \<and> fetch_full_content web_down ''https://example.com/1'' = []
   \<and> fetch_with_jina web_page ''https://example.com/1'' = []
   \<and> enhanced_get web_page ''https://example.com/1'' = Inr soup_page
   \<and> first_substantial soup_page content_selectors = None
   \<and> fetch_full_content web_page ''https://example.com/1'' = ''Job body''
   \<and> fetch_with_jina web_basic_only ''https://example.com/1'' = []
   \<and> enhanced_get web_basic_only ''https://example.com/1'' = Inl (RequestError ''timeout'')
   \<and> fetch_full_content web_basic_only ''https://example.com/1'' = ''Menu Job body''
   \<and> length (fetch_full_content web_long ''https://example.com/1'') \<le> 8000"
proof -
  let ?u = "''https://example.com/1''"
  have a: "fetch_full_content web_page [] = []"
    using fetch_full_content_chain [of web_page "[]"] by simp
  have d1: "jina_get web_down (''https://r.jina.ai/'' @ ?u) = Inl (RequestError ''timeout'')"
    and d2: "enhanced_get web_down ?u = Inl (RequestError ''timeout'')"
    and d3: "basic_get web_down ?u = Inl (RequestError ''timeout'')"
    by (simp_all add: web_down_def)
  have b: "fetch_full_content web_down ?u = []"
    using fetch_full_content_chain [of web_down ?u] d1 d2 d3 by blast
  have p1: "fetch_with_jina web_page ?u = []"
    by (simp add: fetch_with_jina_def web_page_def)
  have p2: "enhanced_get web_page ?u = Inr soup_page"
    by (simp add: web_page_def)
  have p3: "first_substantial soup_page content_selectors = None"
    by (simp add: soup_page_def content_selectors_def)
  have p3': "\<forall>selector \<in> set content_selectors. \<forall>text.
              select_one_text soup_page selector = Some text \<longrightarrow> length text \<le> 200"
    using p3 by (simp only: first_substantial_None_iff)
  have c: "fetch_full_content web_page ?u = ''Job body''"
    using fetch_full_content_chain [of web_page ?u soup_page] p1 p2 p3'
    by (simp add: soup_page_def)
  have q1: "fetch_with_jina web_basic_only ?u = []"
    by (simp add: fetch_with_jina_def web_basic_only_def)
  have q2: "enhanced_get web_basic_only ?u = Inl (RequestError ''timeout'')"
    by (simp add: web_basic_only_def)
  have d: "fetch_full_content web_basic_only ?u = ''Menu Job body''"
    using fetch_full_content_chain [of web_basic_only ?u] q1 q2
    by (simp add: web_basic_only_def)
  have e: "length (fetch_full_content web_long ?u) \<le> 8000"
    using fetch_full_content_chain [of web_long ?u] by simp
  show ?thesis
    by (intro conjI) (rule a d1 d2 d3 b p1 p2 p3 c q1 q2 d e)+
qed

section \<open>Properties of the Miniflux provider\<close>

lemma track_latest_value:
  "get_default (track_latest latest entry_time) [] = max entry_time (get_default latest [])"
  by (auto simp: track_latest_def get_default_def max_def split: option.splits)

lemma quick_relevance_check_returns:
  "cfg_keywords cfg \<noteq> None \<Longrightarrow>
   \<exists>r. quick_relevance_check md5_hexdigest s cfg provider be py_int title description link = Inr r"
  by (auto simp: quick_relevance_check_def relevance_prompt_def getitem_def Let_def
      split: option.splits sum.splits)

lemma miniflux_loop_latest:
  assumes kw: "cfg_keywords cfg \<noteq> None"
  shows "\<exists>entries' latest'.
           miniflux_loop md5_hexdigest s cfg provider be py_int w data (entries, latest)
             = Inr (entries', latest')
         \<and> get_default latest' [] =
             fold max (observed_times md5_hexdigest s data) (get_default latest [])"
proof (induction data arbitrary: entries latest)
  case Nil
  then show ?case by (simp add: observed_times_def)
next
  case (Cons entry rest)
  show ?case
  proof (cases "is_job_already_processed md5_hexdigest s
                  (get_default (mf_title entry) []) (get_default (mf_url entry) [])")
    case True
    then show ?thesis using Cons.IH [of entries latest]
      by (simp add: observed_times_def)
  next
    case False
    obtain is_relevant relevance_score where
      r: "quick_relevance_check md5_hexdigest s cfg provider be py_int
            (get_default (mf_title entry) []) (get_default (mf_description entry) [])
            (Some (get_default (mf_link entry) [])) = Inr (is_relevant, relevance_score)"
      using quick_relevance_check_returns [OF kw] by (metis surj_pair)
    let ?l = "track_latest latest (get_default (mf_published_at entry) [])"
    have t: "observed_times md5_hexdigest s (entry # rest)
               = get_default (mf_published_at entry) [] # observed_times md5_hexdigest s rest"
      using False by (simp add: observed_times_def)
    show ?thesis
    proof (cases "\<not> is_relevant \<or> relevance_score < 6")
      case True
      then show ?thesis using False r Cons.IH [of entries ?l]
        by (auto simp: t track_latest_value Let_def)
    next
      case skip: False
      then show ?thesis using False r
          Cons.IH [of "entries @
                           [\<lparr> ed_title = Some (get_default (mf_title entry) []),
                              ed_link = Some (get_default (mf_url entry) []),
                              ed_description = Some (get_default (mf_content entry) []),
                              ed_content = Some (fetch_full_content w
                                                   (get_default (mf_url entry) [])),
                              ed_published = Some (get_default (mf_published_at entry) []),
                              ed_source = Some (get_default (mf_feed_title entry) []),
                              ed_category = Some ''general'',
                              ed_relevance_score = None \<rparr>]" ?l]
        by (auto simp: t track_latest_value Let_def)
    qed
  qed
qed

lemma fold_max_ge: "(a::'a::linorder) \<le> fold max xs a"
  by (induction xs arbitrary: a) (auto intro: order_trans [OF max.cobounded2] simp: max.coboundedI2)


text \<open>
  C7, as stated, fails: an entry of the response whose identity is already stored is
  skipped before its timestamp is looked at, so the watermark stays at
  \<open>2024-01-01\<close> although the response holds an entry published \<open>2024-02-01\<close>.
\<close>

theorem fetch_miniflux_watermark_skips_stored:
  "\<forall>md5_hexdigest.
     is_job_already_processed md5_hexdigest [stored0 md5_hexdigest 0]
        ''Assistant Professor X'' ''https://example.com/1''
   \<and> watermark cfg0 = ''2024-01-01T00:00:00Z''
   \<and> mf_published_at mf0 = Some ''2024-02-01T00:00:00Z''
   \<and> max ''2024-01-01T00:00:00Z'' ''2024-02-01T00:00:00Z'' = ''2024-02-01T00:00:00Z''
   \<and> fetch_miniflux md5_hexdigest [stored0 md5_hexdigest 0] cfg0 ''ollama'' (be_reply ''8'')
         py_int_ascii web_page (\<lambda>after. Inr (Some [mf0])) = ([], cfg0)"
  by (simp add: fetch_miniflux_def is_job_already_processed_def query_first_by_id_def
        stored0_def mf0_def cfg0_def watermark_def get_default_def truthy_def max_def)

text \<open>
  C7, amended. After a poll whose request succeeds (with a configuration that has
  keywords, so that the relevance gate cannot raise), the saved watermark is the maximum
  of the previous watermark and the published timestamps of the response's entries
  whose identity is not yet stored; it never regresses; the relevance verdicts have no
  part in it.
\<close>

theorem fetch_miniflux_watermark:
  assumes "get_entries (if truthy (cfg_last_miniflux_fetch cfg)
                        then cfg_last_miniflux_fetch cfg else None) = Inr data"
    and "cfg_keywords cfg \<noteq> None"
  shows "watermark (snd (fetch_miniflux md5_hexdigest s cfg provider be py_int w get_entries))
           = Max (set (watermark cfg # observed_times md5_hexdigest s (get_default data [])))
       \<and> watermark cfg
           \<le> watermark (snd (fetch_miniflux md5_hexdigest s cfg provider be py_int w get_entries))"
proof -
  let ?last = "cfg_last_miniflux_fetch cfg"
  let ?times = "observed_times md5_hexdigest s (get_default data [])"
  from miniflux_loop_latest [OF assms(2), of md5_hexdigest s provider be py_int w
         "get_default data []" "[]" ?last]
  obtain entries' latest' where
    loop: "miniflux_loop md5_hexdigest s cfg provider be py_int w (get_default data []) ([], ?last)
             = Inr (entries', latest')"
    and val: "get_default latest' [] = fold max ?times (get_default ?last [])"
    by blast
  have ge: "get_default ?last [] \<le> get_default latest' []"
    unfolding val by (rule fold_max_ge)
  have fm: "fetch_miniflux md5_hexdigest s cfg provider be py_int w get_entries
              = (if truthy latest' \<and> latest' \<noteq> ?last
                 then (entries', cfg\<lparr> cfg_last_miniflux_fetch := latest' \<rparr>)
                 else (entries', cfg))"
    using assms(1) loop by (simp add: fetch_miniflux_def Let_def)
  have saved: "watermark (snd (fetch_miniflux md5_hexdigest s cfg provider be py_int w get_entries))
                 = get_default latest' []"
  proof (cases "truthy latest' \<and> latest' \<noteq> ?last")
    case True
    then show ?thesis unfolding fm by (simp add: watermark_def)
  next
    case False
    have "get_default ?last [] = get_default latest' []"
    proof (cases "latest' = ?last")
      case True
      then show ?thesis by simp
    next
      case ne: False
      with False have "\<not> truthy latest'" by simp
      then have "get_default latest' [] = []"
        by (auto simp: truthy_def get_default_def split: option.splits)
      with ge show ?thesis by simp
    qed
    with False show ?thesis unfolding fm by (simp add: watermark_def)
  qed
  have "fold max ?times (watermark cfg) = Max (set (watermark cfg # ?times))"
    by (simp only: Max.set_eq_fold)
  then show ?thesis using saved val ge by (simp add: watermark_def)
qed

theorem fetch_miniflux_watermark_witness:
  "cfg_keywords cfg0 \<noteq> None
   \<and> observed_times (\<lambda>x. x) [] [mf0, mf_low] = [''2024-02-01T00:00:00Z'', ''2024-03-01T00:00:00Z'']
   \<and> fst (fetch_miniflux (\<lambda>x. x) [] cfg0 ''ollama'' (be_reply ''3'') py_int_ascii web_page
             (\<lambda>after. Inr (Some [mf0, mf_low]))) = []
   \<and> watermark (snd (fetch_miniflux (\<lambda>x. x) [] cfg0 ''ollama'' (be_reply ''3'') py_int_ascii web_page
             (\<lambda>after. Inr (Some [mf0, mf_low]))))
       = Max (set [''2024-01-01T00:00:00Z'', ''2024-02-01T00:00:00Z'', ''2024-03-01T00:00:00Z''])
   \<and> watermark (snd (fetch_miniflux (\<lambda>x. x) [] cfg0 ''ollama'' (be_reply ''3'') py_int_ascii web_page
             (\<lambda>after. Inr (Some [mf0, mf_low])))) = ''2024-03-01T00:00:00Z''"
proof -
  let ?get = "\<lambda>after :: string option. (Inr (Some [mf0, mf_low]) :: error + miniflux_entry list option)"
  have h1: "?get (if truthy (cfg_last_miniflux_fetch cfg0) then cfg_last_miniflux_fetch cfg0 else None)
              = Inr (Some [mf0, mf_low])" by simp
  have h2: "cfg_keywords cfg0 \<noteq> None" by (simp add: cfg0_def)
  have t: "observed_times (\<lambda>x. x) [] [mf0, mf_low]
             = [''2024-02-01T00:00:00Z'', ''2024-03-01T00:00:00Z'']"
    by (simp add: observed_times_def is_job_already_processed_def query_first_by_id_def
          mf0_def mf_low_def get_default_def)
  have w: "watermark cfg0 = ''2024-01-01T00:00:00Z''"
    by (simp add: watermark_def cfg0_def get_default_def)
  have e: "fst (fetch_miniflux (\<lambda>x. x) [] cfg0 ''ollama'' (be_reply ''3'') py_int_ascii web_page ?get) = []"
    by (simp add: fetch_miniflux_def is_job_already_processed_def query_first_by_id_def
          quick_relevance_check_def cached_verdict_def relevance_prompt_def getitem_def
          call_llm_def call_ollama_def be_reply_def cfg0_def mf0_def mf_low_def
          get_default_def truthy_def track_latest_def Let_def
          py_int_ascii_def strip_def is_space_def unsigned_value_def digit_value_def)
  have m: "watermark (snd (fetch_miniflux (\<lambda>x. x) [] cfg0 ''ollama'' (be_reply ''3'') py_int_ascii
              web_page ?get))
       = Max (set [''2024-01-01T00:00:00Z'', ''2024-02-01T00:00:00Z'', ''2024-03-01T00:00:00Z''])"
    using fetch_miniflux_watermark [OF h1 h2, where md5_hexdigest = "\<lambda>x. x" and s = "[]"
        and provider = "''ollama''" and be = "be_reply ''3''" and py_int = py_int_ascii
        and w = web_page]
    by (simp only: t w get_default_def option.simps)
  have v: "Max (set [''2024-01-01T00:00:00Z'', ''2024-02-01T00:00:00Z'', ''2024-03-01T00:00:00Z''])
             = ''2024-03-01T00:00:00Z''"
    by (simp add: max_def)
  show ?thesis using h2 t e m v by simp
qed

text \<open>No entry the loop builds carries a relevance score.\<close>

lemma miniflux_loop_no_score:
  "miniflux_loop md5_hexdigest s cfg provider be py_int w data (entries, latest)
     = Inr (entries', latest') \<Longrightarrow>
   list_all (\<lambda>e. ed_relevance_score e = None) entries \<Longrightarrow>
   list_all (\<lambda>e. ed_relevance_score e = None) entries'"
proof (induction data arbitrary: entries latest)
  case Nil
  then show ?case by simp
next
  case (Cons entry rest)
  then show ?case
    by (simp add: Let_def split: if_splits sum.splits prod.splits)
qed

text \<open>
  C6 does not hold of the code. The gate scores a new Miniflux entry 8; the score is
  written into the response's own entry, not into the dictionary \<open>_fetch_miniflux\<close>
  returns, so \<open>add_job_entry\<close> stores the record with \<open>relevance_score = 0\<close> and a
  later check of the same identity finds no cached verdict.
\<close>

theorem fetch_miniflux_drops_relevance_score:
  "quick_relevance_check md5_hexdigest [] cfg0 ''ollama'' (be_reply ''8'') py_int_ascii
      ''Assistant Professor X'' [] (Some []) = Inr (True, 8)
   \<and> fetch_miniflux md5_hexdigest [] cfg0 ''ollama'' (be_reply ''8'') py_int_ascii web_page
        (\<lambda>after. Inr (Some [mf0]))
       = ([\<lparr> ed_title = Some ''Assistant Professor X'', ed_link = Some ''https://example.com/1'',
             ed_description = Some ''We hire.'', ed_content = Some ''Job body'',
             ed_published = Some ''2024-02-01T00:00:00Z'', ed_source = Some ''Jobs'',
             ed_category = Some ''general'', ed_relevance_score = None \<rparr>],
          cfg0\<lparr> cfg_last_miniflux_fetch := Some ''2024-02-01T00:00:00Z'' \<rparr>)
   \<and> add_entries md5_hexdigest []
        (fst (fetch_miniflux md5_hexdigest [] cfg0 ''ollama'' (be_reply ''8'') py_int_ascii web_page
               (\<lambda>after. Inr (Some [mf0])))) 0
       = Inr (1, [stored0 md5_hexdigest 0])
   \<and> je_relevance_score (stored0 md5_hexdigest 0) = 0
   \<and> cached_verdict md5_hexdigest [stored0 md5_hexdigest 0]
        ''Assistant Professor X'' (Some ''https://example.com/1'') = None"
proof -
  have q: "quick_relevance_check md5_hexdigest [] cfg0 ''ollama'' (be_reply ''8'') py_int_ascii
      ''Assistant Professor X'' [] (Some []) = Inr (True, 8)"
    by (simp add: quick_relevance_check_def cached_verdict_def relevance_prompt_def getitem_def
          call_llm_def call_ollama_def be_reply_def cfg0_def get_default_def Let_def
          py_int_ascii_def strip_def is_space_def unsigned_value_def digit_value_def)
  have c: "fetch_full_content web_page ''https://example.com/1'' = ''Job body''"
    by (simp add: fetch_full_content_def fetch_with_jina_def fetch_with_enhanced_bs4_def
        web_page_def soup_page_def content_selectors_def)
  have f: "fetch_miniflux md5_hexdigest [] cfg0 ''ollama'' (be_reply ''8'') py_int_ascii web_page
        (\<lambda>after. Inr (Some [mf0]))
       = ([\<lparr> ed_title = Some ''Assistant Professor X'', ed_link = Some ''https://example.com/1'',
             ed_description = Some ''We hire.'', ed_content = Some ''Job body'',
             ed_published = Some ''2024-02-01T00:00:00Z'', ed_source = Some ''Jobs'',
             ed_category = Some ''general'', ed_relevance_score = None \<rparr>],
          cfg0\<lparr> cfg_last_miniflux_fetch := Some ''2024-02-01T00:00:00Z'' \<rparr>)"
    using q c
    by (simp add: fetch_miniflux_def is_job_already_processed_def query_first_by_id_def
          mf0_def get_default_def truthy_def track_latest_def Let_def cfg0_def)
  have a: "add_entries md5_hexdigest []
        (fst (fetch_miniflux md5_hexdigest [] cfg0 ''ollama'' (be_reply ''8'') py_int_ascii web_page
               (\<lambda>after. Inr (Some [mf0])))) 0
       = Inr (1, [stored0 md5_hexdigest 0])"
    by (simp add: f add_job_entry_def getitem_def query_first_by_id_def get_default_def
          stored0_def Let_def)
  have s: "je_relevance_score (stored0 md5_hexdigest 0) = 0" by (simp add: stored0_def)
  have v: "cached_verdict md5_hexdigest [stored0 md5_hexdigest 0]
        ''Assistant Professor X'' (Some ''https://example.com/1'') = None"
    by (simp add: cached_verdict_def query_first_by_id_def stored0_def)
  show ?thesis by (intro conjI) (rule q f a s v)+
qed

end
